theory Spec2Isabelle
  imports Main "HOL-Library.Word"
begin

section \<open>Python values used by main.py\<close>

text \<open>
  A Python \<open>str\<close> is a sequence of Unicode code points, so it is modelled as a list of
  naturals; \<open>py\<close> turns an ASCII literal into such a string. A \<open>bytes\<close> object is a
  list of 8-bit words.
\<close>

type_synonym pystr = "nat list"
type_synonym bytes = "8 word list"

definition py :: "string \<Rightarrow> pystr" where
  "py s = map of_char s"

text \<open>
  The exceptions of the program. All of them are instances of Python's \<open>Exception\<close>,
  which is what both \<open>except Exception\<close> clauses of main.py catch. \<open>LibError\<close> stands
  for whatever a third-party call (PIL, requests, telebot, openai) raises.
\<close>

datatype exn =
    IndexError
  | KeyError pystr
  | TypeError
  | AttributeError
  | ValueError
  | LibError pystr

text \<open>
  The value \<open>response.json()\<close> returns. \<open>JNull\<close> is Python's \<open>None\<close>; a finite float
  \<open>JFloat m e\<close> is \<open>m * 2 ^ e\<close>; a dict is an association list, looked up from the
  front.
\<close>

datatype json =
    JNull
  | JBool bool
  | JInt int
  | JFloat int int
  | JStr pystr
  | JArr "json list"
  | JObj "(pystr \<times> json) list"

text \<open>Truth value of an object, as \<open>if x\<close> and \<open>not x\<close> test it.\<close>

fun truthy :: "json \<Rightarrow> bool" where
  "truthy JNull = False"
| "truthy (JBool b) = b"
| "truthy (JInt n) = (n \<noteq> 0)"
| "truthy (JFloat m e) = (m \<noteq> 0)"
| "truthy (JStr s) = (s \<noteq> [])"
| "truthy (JArr xs) = (xs \<noteq> [])"
| "truthy (JObj kvs) = (kvs \<noteq> [])"

text \<open>
  \<open>obj[key]\<close> with a string key: a dict answers or raises KeyError, every other JSON
  value raises TypeError.
\<close>

fun getitem :: "json \<Rightarrow> pystr \<Rightarrow> exn + json" where
  "getitem (JObj kvs) k = (case map_of kvs k of None \<Rightarrow> Inl (KeyError k) | Some v \<Rightarrow> Inr v)"
| "getitem JNull k = Inl TypeError"
| "getitem (JBool b) k = Inl TypeError"
| "getitem (JInt n) k = Inl TypeError"
| "getitem (JFloat m e) k = Inl TypeError"
| "getitem (JStr s) k = Inl TypeError"
| "getitem (JArr xs) k = Inl TypeError"

text \<open>\<open>str.strip()\<close>: drops the leading and trailing white space of a string.\<close>

definition isspace :: "nat \<Rightarrow> bool" where
  "isspace c \<longleftrightarrow>
     (9 \<le> c \<and> c \<le> 13) \<or> (28 \<le> c \<and> c \<le> 32) \<or> c = 133 \<or> c = 160 \<or> c = 5760 \<or>
     (8192 \<le> c \<and> c \<le> 8202) \<or> c = 8232 \<or> c = 8233 \<or> c = 8239 \<or> c = 8287 \<or> c = 12288"

definition strip :: "pystr \<Rightarrow> pystr" where
  "strip s = rev (dropWhile isspace (rev (dropWhile isspace s)))"

text \<open>\<open>base64.b64encode(data).decode('utf-8')\<close>, with the standard alphabet and padding.\<close>

definition b64_alphabet :: "pystr" where
  "b64_alphabet = py ''ABCDEFGHIJKLMNOPQRSTUVWXYZabcdefghijklmnopqrstuvwxyz0123456789+/''"

definition b64_char :: "nat \<Rightarrow> nat" where
  "b64_char i = b64_alphabet ! (i mod 64)"

fun b64encode :: "bytes \<Rightarrow> pystr" where
  "b64encode [] = []"
| "b64encode [a] =
     [b64_char (unat a div 4), b64_char (unat a mod 4 * 16), 61, 61]"
| "b64encode [a, b] =
     [b64_char (unat a div 4), b64_char (unat a mod 4 * 16 + unat b div 16),
      b64_char (unat b mod 16 * 4), 61]"
| "b64encode (a # b # c # rest) =
     [b64_char (unat a div 4), b64_char (unat a mod 4 * 16 + unat b div 16),
      b64_char (unat b mod 16 * 4 + unat c div 64), b64_char (unat c mod 64)] @ b64encode rest"

section \<open>The outside world\<close>

text \<open>
  What PIL's \<open>Image.open\<close> returns: the detected format (\<open>None\<close> for an image that
  was not read from a file, such as the result of \<open>convert\<close>), the colour mode, the size
  and the pixel data.
\<close>

record image =
  img_format :: "pystr option"
  img_mode :: pystr
  img_size :: "nat \<times> nat"
  img_data :: bytes

text \<open>
  The response of \<open>requests.post\<close>; \<open>json_body\<close> is what \<open>response.json()\<close> does:
  it raises on a body that is not JSON.
\<close>

record http_response =
  status_code :: int
  resp_text :: pystr
  json_body :: "exn + json"

text \<open>
  A chat completion: the \<open>message.content\<close> of each of its choices, which the SDK
  types as an optional string.
\<close>

datatype completion = Completion (choices: "pystr option list")

record photo_size =
  file_id :: pystr

record message =
  photo :: "photo_size list"

type_synonym payload = "(pystr \<times> pystr option) list"

text \<open>
  Everything main.py calls and does not define is a field of the environment. A call
  either raises (\<open>Inl\<close>) or returns (\<open>Inr\<close>). The PIL operations are functions of their
  arguments. The model endpoint and \<open>bot.reply_to\<close> may answer differently each time
  they are called, so they also take the number of calls made to them before, within
  the current invocation. \<open>IMGBB_API_KEY\<close> is \<open>os.getenv\<close>'s result, \<open>None\<close> when the
  variable is not set. \<open>chat_create\<close> is \<open>client.chat.completions.create\<close> with the
  fixed model, prompt and token ceiling of the source; only the image URL varies.
\<close>

record env =
  imgbb_api_key :: "pystr option"
  get_file :: "pystr \<Rightarrow> exn + pystr"
  download_file :: "pystr \<Rightarrow> exn + bytes"
  reply_to :: "nat \<Rightarrow> pystr \<Rightarrow> exn + unit"
  image_open :: "bytes \<Rightarrow> exn + image"
  image_convert :: "image \<Rightarrow> pystr \<Rightarrow> exn + image"
  image_save :: "image \<Rightarrow> pystr \<Rightarrow> exn + bytes"
  requests_post :: "pystr \<Rightarrow> payload \<Rightarrow> exn + http_response"
  chat_create :: "nat \<Rightarrow> json \<Rightarrow> exn + completion"

text \<open>
  The trace of an invocation: the outside calls in the order they are made, and the
  two calls of \<open>handle_photo\<close> into the other components. \<open>bot.get_file\<close> is taken
  to return the \<open>file_path\<close> of the file it describes. Logging is left out: it
  changes no value and no control flow.
\<close>

datatype event =
    Get_file pystr
  | Download_file pystr
  | Call_upload bytes
  | Post pystr payload
  | Call_analyze json
  | Create json
  | Sleep int
  | Reply pystr

text \<open>The events of one kind in a trace, in order.\<close>

fun uploads :: "event list \<Rightarrow> bytes list" where
  "uploads [] = []"
| "uploads (Call_upload d # tr) = d # uploads tr"
| "uploads (ev # tr) = uploads tr"

fun posts :: "event list \<Rightarrow> (pystr \<times> payload) list" where
  "posts [] = []"
| "posts (Post u p # tr) = (u, p) # posts tr"
| "posts (ev # tr) = posts tr"

fun analyses :: "event list \<Rightarrow> json list" where
  "analyses [] = []"
| "analyses (Call_analyze u # tr) = u # analyses tr"
| "analyses (ev # tr) = analyses tr"

fun creates :: "event list \<Rightarrow> json list" where
  "creates [] = []"
| "creates (Create u # tr) = u # creates tr"
| "creates (ev # tr) = creates tr"

fun sleeps :: "event list \<Rightarrow> int list" where
  "sleeps [] = []"
| "sleeps (Sleep d # tr) = d # sleeps tr"
| "sleeps (ev # tr) = sleeps tr"

fun replies :: "event list \<Rightarrow> pystr list" where
  "replies [] = []"
| "replies (Reply t # tr) = t # replies tr"
| "replies (ev # tr) = replies tr"

section \<open>upload_image_to_imgbb\<close>

text \<open>\<open>image.convert("RGB").save(output, format="JPEG")\<close>, then \<open>output.getvalue()\<close>.\<close>

definition jpeg_reencode :: "env \<Rightarrow> image \<Rightarrow> exn + bytes" where
  "jpeg_reencode env img =
     (case image_convert env img (py ''RGB'') of
        Inl e \<Rightarrow> Inl e
      | Inr rgb \<Rightarrow> image_save env rgb (py ''JPEG''))"

definition imgbb_url :: pystr where
  "imgbb_url = py ''https://api.imgbb.com/1/upload''"

definition upload_payload :: "env \<Rightarrow> bytes \<Rightarrow> payload" where
  "upload_payload env output =
     [(py ''key'', imgbb_api_key env), (py ''image'', Some (b64encode output))]"

text \<open>
  The body of the \<open>try\<close>: the value it returns, or the exception that reaches the
  \<open>except\<close> clause, and the requests made on the way.
\<close>

definition upload_body :: "env \<Rightarrow> bytes \<Rightarrow> (exn + json) \<times> event list" where
  "upload_body env file_data =
     (case image_open env file_data of
        Inl e \<Rightarrow> (Inl e, [])
      | Inr img \<Rightarrow>
         (case jpeg_reencode env img of
            Inl e \<Rightarrow> (Inl e, [])
          | Inr output \<Rightarrow>
             (let payload = upload_payload env output;
                  tr = [Post imgbb_url payload]
              in case requests_post env imgbb_url payload of
                   Inl e \<Rightarrow> (Inl e, tr)
                 | Inr response \<Rightarrow>
                    if status_code response = 200 then
                      (case json_body response of
                         Inl e \<Rightarrow> (Inl e, tr)
                       | Inr result \<Rightarrow>
                          (case getitem result (py ''data'') of
                             Inl e \<Rightarrow> (Inl e, tr)
                           | Inr d \<Rightarrow>
                              (case getitem d (py ''url'') of
                                 Inl e \<Rightarrow> (Inl e, tr)
                               | Inr u \<Rightarrow> (Inr u, tr))))
                    else (Inr JNull, tr))))"

text \<open>
  The function: \<open>except Exception\<close> turns every exception of the body into the
  return value \<open>None\<close> (\<open>JNull\<close>).
\<close>

definition upload_image_to_imgbb :: "env \<Rightarrow> bytes \<Rightarrow> (exn + json) \<times> event list" where
  "upload_image_to_imgbb env file_data =
     (case upload_body env file_data of
        (Inl e, tr) \<Rightarrow> (Inr JNull, tr)
      | (Inr v, tr) \<Rightarrow> (Inr v, tr))"

section \<open>analyze_image_openai\<close>

text \<open>\<open>response.choices[0].message.content.strip()\<close>.\<close>

definition first_choice_text :: "completion \<Rightarrow> exn + pystr" where
  "first_choice_text response =
     (case choices response of
        [] \<Rightarrow> Inl IndexError
      | c # cs \<Rightarrow> (case c of None \<Rightarrow> Inl AttributeError | Some s \<Rightarrow> Inr (strip s)))"

text \<open>The body of the \<open>try\<close>: the call, then the extraction of the text.\<close>

definition attempt_once :: "env \<Rightarrow> nat \<Rightarrow> json \<Rightarrow> exn + pystr" where
  "attempt_once env k image_url =
     (case chat_create env k image_url of
        Inl e \<Rightarrow> Inl e
      | Inr response \<Rightarrow> first_choice_text response)"

text \<open>\<open>time.sleep(delay)\<close> raises ValueError on a negative delay.\<close>

definition time_sleep :: "int \<Rightarrow> exn + unit" where
  "time_sleep delay = (if delay < 0 then Inl ValueError else Inr ())"

text \<open>
  The loop \<open>for attempt in range(retries)\<close>, from the iteration \<open>attempt\<close> on;
  \<open>attempt\<close> starts at 0 and counts up, so it is also the number of calls made to
  the endpoint before. The sleep is inside the \<open>except\<close> clause, so an exception of
  \<open>time.sleep\<close> leaves the function. When the range is exhausted, or empty because
  \<open>retries\<close> is not positive, the function ends without a \<open>return\<close>, which returns
  \<open>None\<close>.
\<close>

function analyze_loop ::
  "env \<Rightarrow> json \<Rightarrow> int \<Rightarrow> int \<Rightarrow> int \<Rightarrow> (exn + pystr option) \<times> event list" where
  "analyze_loop env image_url retries delay attempt =
     (if 0 \<le> attempt \<and> attempt < retries then
        (case attempt_once env (nat attempt) image_url of
           Inr txt \<Rightarrow> (Inr (Some txt), [Create image_url])
         | Inl e \<Rightarrow>
            if attempt < retries - 1 then
              (case time_sleep delay of
                 Inl e' \<Rightarrow> (Inl e', [Create image_url])
               | Inr u \<Rightarrow>
                  (case analyze_loop env image_url retries delay (attempt + 1) of
                     (r, tr) \<Rightarrow> (r, [Create image_url, Sleep delay] @ tr)))
            else (Inr None, [Create image_url]))
      else (Inr None, []))"
  by pat_completeness auto
termination
  by (relation "measure (\<lambda>(env, image_url, retries, delay, attempt). nat (retries - attempt))") auto

declare analyze_loop.simps [simp del]

definition analyze_image_openai ::
  "env \<Rightarrow> json \<Rightarrow> int \<Rightarrow> int \<Rightarrow> (exn + pystr option) \<times> event list" where
  "analyze_image_openai env image_url retries delay = analyze_loop env image_url retries delay 0"

section \<open>handle_photo\<close>

text \<open>\<open>message.photo[-1]\<close>: the last element, IndexError on an empty list.\<close>

definition last_photo :: "message \<Rightarrow> exn + photo_size" where
  "last_photo msg = (case photo msg of [] \<Rightarrow> Inl IndexError | p # ps \<Rightarrow> Inr (last (p # ps)))"

text \<open>
  The inner \<open>try\<close> of the handler: the bytes that go on to the upload, or the
  exception its \<open>except\<close> clause catches.
\<close>

definition convert_step :: "env \<Rightarrow> bytes \<Rightarrow> exn + bytes" where
  "convert_step env file_data =
     (case image_open env file_data of
        Inl e \<Rightarrow> Inl e
      | Inr img \<Rightarrow>
         if img_format img = Some (py ''WEBP'') then jpeg_reencode env img
         else Inr file_data)"

definition msg_format_failed :: pystr where
  "msg_format_failed = py ''Failed to process the image format.''"

definition msg_upload_failed :: pystr where
  "msg_upload_failed = py ''Failed to upload image to ImgBB.''"

definition msg_analysis_failed :: pystr where
  "msg_analysis_failed = py ''Failed to analyze image using OpenAI Vision API.''"

definition msg_failed :: pystr where
  "msg_failed = py ''Failed to process the image.''"

definition result_label :: pystr where
  "result_label = py ''Image analysis result:'' @ [10]"

text \<open>\<open>bot.reply_to(message, text)\<close> after the trace \<open>tr\<close>.\<close>

definition do_reply :: "env \<Rightarrow> event list \<Rightarrow> pystr \<Rightarrow> (exn + unit) \<times> event list" where
  "do_reply env tr t = (reply_to env (length (replies tr)) t, tr @ [Reply t])"

text \<open>\<open>if analysis_result\<close>: \<open>None\<close> and the empty string are false.\<close>

definition text_truthy :: "pystr option \<Rightarrow> bool" where
  "text_truthy r = (case r of None \<Rightarrow> False | Some s \<Rightarrow> s \<noteq> [])"

text \<open>\<open>{analysis_result}\<close> inside an f-string: \<open>str()\<close> of the value.\<close>

definition fstr :: "pystr option \<Rightarrow> pystr" where
  "fstr r = (case r of None \<Rightarrow> py ''None'' | Some s \<Rightarrow> s)"

text \<open>
  The body of the outer \<open>try\<close>. \<open>Inl\<close> is an exception that reaches the outer
  \<open>except\<close> clause. The analyzer is called with its defaults, three attempts and a
  delay of two seconds.
\<close>

definition handle_photo_body :: "env \<Rightarrow> message \<Rightarrow> (exn + unit) \<times> event list" where
  "handle_photo_body env msg =
     (case last_photo msg of
        Inl e \<Rightarrow> (Inl e, [])
      | Inr p \<Rightarrow>
         (case get_file env (file_id p) of
            Inl e \<Rightarrow> (Inl e, [Get_file (file_id p)])
          | Inr path \<Rightarrow>
             (let tr1 = [Get_file (file_id p), Download_file path]
              in case download_file env path of
                   Inl e \<Rightarrow> (Inl e, tr1)
                 | Inr file_data \<Rightarrow>
                    (case convert_step env file_data of
                       Inl e \<Rightarrow> do_reply env tr1 msg_format_failed
                     | Inr file_data' \<Rightarrow>
                        (case upload_image_to_imgbb env file_data' of
                           (Inl e, tr_up) \<Rightarrow> (Inl e, tr1 @ [Call_upload file_data'] @ tr_up)
                         | (Inr image_url, tr_up) \<Rightarrow>
                            (let tr2 = tr1 @ [Call_upload file_data'] @ tr_up
                             in if \<not> truthy image_url then do_reply env tr2 msg_upload_failed
                                else
                                  (case analyze_image_openai env image_url 3 2 of
                                     (Inl e, tr_an) \<Rightarrow>
                                       (Inl e, tr2 @ [Call_analyze image_url] @ tr_an)
                                   | (Inr analysis_result, tr_an) \<Rightarrow>
                                       (let tr3 = tr2 @ [Call_analyze image_url] @ tr_an
                                        in if text_truthy analysis_result
                                           then do_reply env tr3
                                                  (result_label @ fstr analysis_result)
                                           else do_reply env tr3 msg_analysis_failed))))))))"

text \<open>
  The handler: an exception of the body is answered with the generic reply, made
  inside the \<open>except\<close> clause, so an exception of that reply leaves the handler.
\<close>

definition handle_photo :: "env \<Rightarrow> message \<Rightarrow> (exn + unit) \<times> event list" where
  "handle_photo env msg =
     (case handle_photo_body env msg of
        (Inr u, tr) \<Rightarrow> (Inr u, tr)
      | (Inl e, tr) \<Rightarrow> do_reply env tr msg_failed)"

section \<open>The words of the specification\<close>

text \<open>
  The Normalizer as section 4.1 of the specification words it: decode; when the
  decoded image is not in the canonical form (JPEG with 3-channel colour), convert to
  RGB and encode as JPEG; otherwise encode again without a conversion.
\<close>

definition canonical :: "image \<Rightarrow> bool" where
  "canonical img \<longleftrightarrow> img_format img = Some (py ''JPEG'') \<and> img_mode img = py ''RGB''"

definition normalizer_spec :: "env \<Rightarrow> bytes \<Rightarrow> exn + bytes" where
  "normalizer_spec env buf =
     (case image_open env buf of
        Inl e \<Rightarrow> Inl e
      | Inr img \<Rightarrow>
         if canonical img then image_save env img (py ''JPEG'')
         else jpeg_reencode env img)"

text \<open>A JSON body has the nested field \<open>data.url\<close>.\<close>

definition has_data_url :: "json \<Rightarrow> bool" where
  "has_data_url j =
     (case j of
        JObj kvs \<Rightarrow>
          (case map_of kvs (py ''data'') of
             Some (JObj kvs') \<Rightarrow> map_of kvs' (py ''url'') \<noteq> None
           | _ \<Rightarrow> False)
      | _ \<Rightarrow> False)"

section \<open>Example environments\<close>

text \<open>
  A small codec: a buffer is a format byte (0 JPEG, 1 PNG, 2 WEBP), a mode byte
  (0 RGB, 1 RGBA) and the pixel data. Only RGB images can be written as JPEG.
\<close>

definition ex_open :: "bytes \<Rightarrow> exn + image" where
  "ex_open buf =
     (case buf of
        f # m # d \<Rightarrow>
          if f \<le> 2 \<and> m \<le> 1 then
            Inr \<lparr>img_format =
                   Some (if f = 0 then py ''JPEG'' else if f = 1 then py ''PNG'' else py ''WEBP''),
                 img_mode = (if m = 0 then py ''RGB'' else py ''RGBA''),
                 img_size = (1, length d), img_data = d\<rparr>
          else Inl (LibError (py ''cannot identify image file''))
      | _ \<Rightarrow> Inl (LibError (py ''cannot identify image file'')))"

definition ex_convert :: "image \<Rightarrow> pystr \<Rightarrow> exn + image" where
  "ex_convert img mode = Inr (img\<lparr>img_format := None, img_mode := mode\<rparr>)"

definition ex_save :: "image \<Rightarrow> pystr \<Rightarrow> exn + bytes" where
  "ex_save img fmt =
     (if fmt = py ''JPEG'' \<and> img_mode img = py ''RGB'' then Inr (0 # 0 # img_data img)
      else Inl (LibError (py ''cannot write image'')))"

definition ex_png :: bytes where
  "ex_png = [1, 1, 7]"

definition ex_webp :: bytes where
  "ex_webp = [2, 1, 7]"

definition ex_url :: pystr where
  "ex_url = py ''https://x/y.jpg''"

definition ex_json :: json where
  "ex_json = JObj [(py ''data'', JObj [(py ''url'', JStr ex_url)])]"

definition ex_ok :: http_response where
  "ex_ok = \<lparr>status_code = 200, resp_text = [], json_body = Inr ex_json\<rparr>"

definition ex_timeout :: exn where
  "ex_timeout = LibError (py ''timed out'')"

text \<open>
  The host answers 200 with the URL, the model endpoint fails twice and then
  describes the picture, every reply is delivered.
\<close>

definition ex_create :: "nat \<Rightarrow> json \<Rightarrow> exn + completion" where
  "ex_create k u =
     (if k < 2 then Inl ex_timeout else Inr (Completion [Some (py '' a cat '')]))"

definition ex_env :: env where
  "ex_env =
     \<lparr>imgbb_api_key = Some (py ''k''),
      get_file = (\<lambda>fid. Inr (py ''photos/1'')),
      download_file = (\<lambda>path. Inr ex_png),
      reply_to = (\<lambda>k t. Inr ()),
      image_open = ex_open,
      image_convert = ex_convert,
      image_save = ex_save,
      requests_post = (\<lambda>u p. Inr ex_ok),
      chat_create = ex_create\<rparr>"

definition ex_msg :: message where
  "ex_msg = \<lparr>photo = [\<lparr>file_id = py ''small''\<rparr>, \<lparr>file_id = py ''large''\<rparr>]\<rparr>"

text \<open>The same, with a model endpoint that never answers.\<close>

definition ex_env_model_down :: env where
  "ex_env_model_down = ex_env\<lparr>chat_create := (\<lambda>k u. Inl ex_timeout)\<rparr>"

text \<open>The same, with a model endpoint that answers with white space only.\<close>

definition ex_env_blank :: env where
  "ex_env_blank = ex_env\<lparr>chat_create := (\<lambda>k u. Inr (Completion [Some (py ''  '')]))\<rparr>"

text \<open>The same, with a host that answers 400.\<close>

definition ex_env_host_400 :: env where
  "ex_env_host_400 =
     ex_env\<lparr>requests_post :=
       (\<lambda>u p. Inr \<lparr>status_code = 400, resp_text = [], json_body = Inl ValueError\<rparr>)\<rparr>"

text \<open>The same, with a WebP download.\<close>

definition ex_env_webp :: env where
  "ex_env_webp = ex_env\<lparr>download_file := (\<lambda>path. Inr ex_webp)\<rparr>"

text \<open>The same, with a download that is no image.\<close>

definition ex_env_garbage :: env where
  "ex_env_garbage = ex_env\<lparr>download_file := (\<lambda>path. Inr [9])\<rparr>"

text \<open>The download fails and the replies are delivered.\<close>

definition ex_env_no_download :: env where
  "ex_env_no_download = ex_env\<lparr>download_file := (\<lambda>path. Inl ex_timeout)\<rparr>"

text \<open>The network is down: the chat platform answers no call at all.\<close>

definition ex_env_offline :: env where
  "ex_env_offline =
     ex_env\<lparr>get_file := (\<lambda>fid. Inl ex_timeout), reply_to := (\<lambda>k t. Inl ex_timeout)\<rparr>"

text \<open>
  The pixel data of every file is cut short: \<open>Image.open\<close>, which reads the header
  only, identifies the file, and \<open>convert\<close>, which loads the pixels, raises.
\<close>

definition ex_truncated :: exn where
  "ex_truncated = LibError (py ''image file is truncated'')"

definition ex_env_truncated :: env where
  "ex_env_truncated = ex_env\<lparr>image_convert := (\<lambda>img mode. Inl ex_truncated)\<rparr>"

text \<open>The same, with a WebP download.\<close>

definition ex_env_truncated_webp :: env where
  "ex_env_truncated_webp = ex_env_truncated\<lparr>download_file := (\<lambda>path. Inr ex_webp)\<rparr>"

section \<open>The retry loop of the analyzer\<close>

text \<open>
  From any iteration on: when every remaining attempt fails, the loop makes all of
  them, sleeps between them and returns \<open>None\<close>.
\<close>

lemma analyze_loop_all_fail:
  shows "0 \<le> delay \<Longrightarrow> 0 \<le> a \<Longrightarrow>
         (\<And>k. nat a \<le> k \<Longrightarrow> k < nat retries \<Longrightarrow> \<exists>e. attempt_once env k u = Inl e) \<Longrightarrow>
         fst (analyze_loop env u retries delay a) = Inr None \<and>
         creates (snd (analyze_loop env u retries delay a)) = replicate (nat (retries - a)) u \<and>
         sleeps (snd (analyze_loop env u retries delay a)) = replicate (nat (retries - a) - 1) delay"
proof (induction env u retries delay a rule: analyze_loop.induct)
  case (1 env u retries delay a)
  show ?case
  proof (cases "a < retries")
    case False
    then show ?thesis by (simp add: analyze_loop.simps)
  next
    case True
    from "1.prems" have d: "0 \<le> delay" and a0: "0 \<le> a" by simp_all
    from True "1.prems" obtain e where e: "attempt_once env (nat a) u = Inl e"
      by (metis nat_less_eq_zless order_refl)
    show ?thesis
    proof (cases "a < retries - 1")
      case last: False
      with True have "retries - a = 1" by simp
      with True last e "1.prems" show ?thesis
        by (simp add: analyze_loop.simps)
    next
      case more: True
      have s: "time_sleep delay = Inr ()" using d by (simp add: time_sleep_def)
      have ih: "fst (analyze_loop env u retries delay (a + 1)) = Inr None \<and>
         creates (snd (analyze_loop env u retries delay (a + 1))) = replicate (nat (retries - (a + 1))) u \<and>
         sleeps (snd (analyze_loop env u retries delay (a + 1))) = replicate (nat (retries - (a + 1)) - 1) delay"
      proof (rule "1.IH" [OF _ e more s d])
        show "0 \<le> a \<and> a < retries" using True "1.prems" by simp
        show "0 \<le> a + 1" using "1.prems" by simp
        fix k assume "nat (a + 1) \<le> k" "k < nat retries"
        then show "\<exists>e. attempt_once env k u = Inl e" using "1.prems" by (simp add: nat_le_iff)
      qed
      have n: "nat (retries - a) = Suc (nat (retries - (a + 1)))" using True by simp
      have m: "nat (retries - (a + 1)) = Suc (nat (retries - (a + 1)) - 1)" using more by simp
      obtain r tr where rt: "analyze_loop env u retries delay (a + 1) = (r, tr)" by (cases "analyze_loop env u retries delay (a + 1)")
      from ih rt have "r = Inr None" "creates tr = replicate (nat (retries - (a + 1))) u" "sleeps tr = replicate (nat (retries - (a + 1)) - 1) delay" by simp_all
      then show ?thesis
        using True more e s a0 rt n m
        by (subst (1 2 3) analyze_loop.simps) (simp add: replicate_Suc [symmetric] del: replicate_Suc)
    qed
  qed
qed

text \<open>
  C1: for every image URL, when every one of the \<open>retries\<close> calls to the model
  endpoint raises, \<open>analyze_image_openai\<close> calls the endpoint exactly \<open>retries\<close>
  times, each time with that URL, and returns \<open>None\<close>; it does not raise. The delay
  is one \<open>time.sleep\<close> accepts, that is, not negative.
\<close>

theorem analyze_gives_up_after_retries:
  assumes "0 \<le> delay"
    and "\<And>k. k < nat retries \<Longrightarrow> \<exists>e. chat_create env k image_url = Inl e"
  shows "fst (analyze_image_openai env image_url retries delay) = Inr None \<and>
         creates (snd (analyze_image_openai env image_url retries delay)) =
           replicate (nat retries) image_url"
proof -
  have "\<exists>e. attempt_once env k image_url = Inl e" if "k < nat retries" for k
    using assms(2) [OF that] by (auto simp: attempt_once_def)
  then show ?thesis
    using analyze_loop_all_fail [of delay 0 retries env image_url] assms(1)
    by (simp add: analyze_image_openai_def)
qed

theorem analyze_gives_up_after_retries_witness:
  "(0::int) \<le> 2 \<and>
   fst (analyze_image_openai ex_env_model_down (JStr ex_url) 3 2) = Inr None \<and>
   creates (snd (analyze_image_openai ex_env_model_down (JStr ex_url) 3 2)) =
     [JStr ex_url, JStr ex_url, JStr ex_url]"
  using analyze_gives_up_after_retries [of 2 3 ex_env_model_down "JStr ex_url"]
  by (simp add: ex_env_model_down_def ex_env_def eval_nat_numeral)

text \<open>
  Outside that domain the sleep itself raises: with a negative delay and at least two
  attempts allowed, the ValueError of \<open>time.sleep\<close> leaves the function after the
  first failed attempt.
\<close>

lemma analyze_negative_delay_raises:
  assumes "delay < 0" "2 \<le> retries" "chat_create env 0 image_url = Inl e"
  shows "analyze_image_openai env image_url retries delay = (Inl ValueError, [Create image_url])"
  using assms
  by (simp add: analyze_image_openai_def analyze_loop.simps [of _ _ _ _ 0] attempt_once_def
      time_sleep_def)

text \<open>
  C2: for every image URL and every \<open>retries\<close> of at least 3, when the first two
  calls to the model endpoint raise and the third returns a completion whose first
  choice has the text \<open>t\<close>, \<open>analyze_image_openai\<close> returns \<open>t\<close> stripped and
  sleeps exactly twice, each time for the configured delay.
\<close>

theorem analyze_third_attempt_succeeds:
  assumes "3 \<le> retries" and "0 \<le> delay"
    and "chat_create env 0 image_url = Inl e0"
    and "chat_create env 1 image_url = Inl e1"
    and "chat_create env 2 image_url = Inr response"
    and "choices response = Some t # cs"
  shows "fst (analyze_image_openai env image_url retries delay) = Inr (Some (strip t)) \<and>
         sleeps (snd (analyze_image_openai env image_url retries delay)) = [delay, delay] \<and>
         creates (snd (analyze_image_openai env image_url retries delay)) =
           [image_url, image_url, image_url]"
  using assms
  by (simp add: analyze_image_openai_def analyze_loop.simps [of _ _ _ _ 0]
      analyze_loop.simps [of _ _ _ _ 1] analyze_loop.simps [of _ _ _ _ 2]
      attempt_once_def first_choice_text_def time_sleep_def)

theorem analyze_third_attempt_succeeds_witness:
  "(3::int) \<le> 3 \<and> (0::int) \<le> 2 \<and>
   chat_create ex_env 0 (JStr ex_url) = Inl ex_timeout \<and>
   chat_create ex_env 1 (JStr ex_url) = Inl ex_timeout \<and>
   chat_create ex_env 2 (JStr ex_url) = Inr (Completion [Some (py '' a cat '')]) \<and>
   fst (analyze_image_openai ex_env (JStr ex_url) 3 2) = Inr (Some (py ''a cat'')) \<and>
   sleeps (snd (analyze_image_openai ex_env (JStr ex_url) 3 2)) = [2, 2]"
  using analyze_third_attempt_succeeds [of 3 2 ex_env "JStr ex_url" ex_timeout ex_timeout
      "Completion [Some (py '' a cat '')]" "py '' a cat ''" "[]"]
  by (simp add: ex_env_def ex_create_def strip_def isspace_def py_def)


section \<open>The uploader\<close>

text \<open>
  Without the nested field, one of the two subscripts of \<open>result['data']['url']\<close>
  raises.
\<close>

lemma getitem_data_url_missing:
  assumes "\<not> has_data_url j"
  shows "(\<exists>e. getitem j (py ''data'') = Inl e) \<or>
         (\<exists>d e. getitem j (py ''data'') = Inr d \<and> getitem d (py ''url'') = Inl e)"
proof (cases j)
  case (JObj kvs)
  show ?thesis
  proof (cases "map_of kvs (py ''data'')")
    case None
    with JObj show ?thesis by simp
  next
    case (Some d)
    with JObj assms show ?thesis
      by (cases d) (auto simp: has_data_url_def split: option.splits)
  qed
qed simp_all

text \<open>No exception leaves the uploader, whatever the environment does.\<close>

lemma upload_never_raises: "\<exists>v. fst (upload_image_to_imgbb env file_data) = Inr v"
  by (cases "upload_body env file_data") (auto simp: upload_image_to_imgbb_def split: sum.splits)

text \<open>
  C4: for every image buffer that the uploader gets as far as posting, when the host
  answers with status 200 and a JSON body whose \<open>data.url\<close> is the string \<open>u\<close>,
  \<open>upload_image_to_imgbb\<close> returns exactly \<open>u\<close>.
\<close>

theorem upload_returns_url:
  assumes "image_open env file_data = Inr img"
    and "jpeg_reencode env img = Inr output"
    and "requests_post env imgbb_url (upload_payload env output) = Inr response"
    and "status_code response = 200"
    and "json_body response = Inr (JObj kvs)"
    and "map_of kvs (py ''data'') = Some (JObj kvs')"
    and "map_of kvs' (py ''url'') = Some (JStr u)"
  shows "fst (upload_image_to_imgbb env file_data) = Inr (JStr u)"
  using assms by (simp add: upload_image_to_imgbb_def upload_body_def)

theorem upload_returns_url_witness:
  "image_open ex_env ex_png = Inr \<lparr>img_format = Some (py ''PNG''), img_mode = py ''RGBA'',
       img_size = (1, 1), img_data = [7]\<rparr> \<and>
   requests_post ex_env imgbb_url (upload_payload ex_env [0, 0, 7]) = Inr ex_ok \<and>
   status_code ex_ok = 200 \<and>
   json_body ex_ok = Inr (JObj [(py ''data'', JObj [(py ''url'', JStr ex_url)])]) \<and>
   fst (upload_image_to_imgbb ex_env ex_png) = Inr (JStr ex_url)"
  using upload_returns_url [of ex_env ex_png
      "\<lparr>img_format = Some (py ''PNG''), img_mode = py ''RGBA'', img_size = (1, 1), img_data = [7]\<rparr>"
      "[0, 0, 7]" ex_ok "[(py ''data'', JObj [(py ''url'', JStr ex_url)])]"
      "[(py ''url'', JStr ex_url)]" ex_url]
  by (simp add: ex_env_def ex_open_def ex_png_def jpeg_reencode_def ex_convert_def ex_save_def
      ex_ok_def ex_json_def py_def)

text \<open>
  C5: for every buffer that the uploader gets as far as posting, when the POST raises,
  or the host answers with a status other than 200, or it answers 200 with a body
  that is not JSON or that lacks the nested field \<open>data.url\<close>,
  \<open>upload_image_to_imgbb\<close> returns \<open>None\<close> and does not raise, and the one POST is
  the only request it has made.
\<close>

theorem upload_failure_is_none:
  assumes "image_open env file_data = Inr img"
    and "jpeg_reencode env img = Inr output"
    and "(\<exists>e. requests_post env imgbb_url (upload_payload env output) = Inl e) \<or>
         (\<exists>r. requests_post env imgbb_url (upload_payload env output) = Inr r \<and>
              (status_code r \<noteq> 200 \<or> (\<exists>e. json_body r = Inl e) \<or>
               (\<exists>j. json_body r = Inr j \<and> \<not> has_data_url j)))"
  shows "upload_image_to_imgbb env file_data =
           (Inr JNull, [Post imgbb_url (upload_payload env output)])"
proof -
  from assms(3) consider
      (raised) e where "requests_post env imgbb_url (upload_payload env output) = Inl e"
    | (status) r where "requests_post env imgbb_url (upload_payload env output) = Inr r"
        "status_code r \<noteq> 200"
    | (malformed) r e where "requests_post env imgbb_url (upload_payload env output) = Inr r"
        "status_code r = 200" "json_body r = Inl e"
    | (missing) r j where "requests_post env imgbb_url (upload_payload env output) = Inr r"
        "status_code r = 200" "json_body r = Inr j" "\<not> has_data_url j"
    by blast
  then show ?thesis
  proof cases
    case raised
    with assms(1,2) show ?thesis by (simp add: upload_image_to_imgbb_def upload_body_def)
  next
    case status
    with assms(1,2) show ?thesis by (simp add: upload_image_to_imgbb_def upload_body_def)
  next
    case malformed
    with assms(1,2) show ?thesis by (simp add: upload_image_to_imgbb_def upload_body_def)
  next
    case missing
    from getitem_data_url_missing [OF missing(4)] missing(1-3) assms(1,2) show ?thesis
      by (auto simp: upload_image_to_imgbb_def upload_body_def)
  qed
qed

theorem upload_failure_is_none_witness:
  "requests_post ex_env_host_400 imgbb_url (upload_payload ex_env_host_400 [0, 0, 7]) =
     Inr \<lparr>status_code = 400, resp_text = [], json_body = Inl ValueError\<rparr> \<and>
   upload_image_to_imgbb ex_env_host_400 ex_png =
     (Inr JNull, [Post imgbb_url (upload_payload ex_env_host_400 [0, 0, 7])])"
  using upload_failure_is_none [of ex_env_host_400 ex_png
      "\<lparr>img_format = Some (py ''PNG''), img_mode = py ''RGBA'', img_size = (1, 1), img_data = [7]\<rparr>"
      "[0, 0, 7]"]
  by (simp add: ex_env_host_400_def ex_env_def ex_open_def ex_png_def jpeg_reencode_def
      ex_convert_def ex_save_def py_def)

section \<open>Traces of the components\<close>

lemmas ex_defs =
  ex_env_def ex_msg_def ex_open_def ex_convert_def ex_save_def ex_png_def ex_webp_def
  ex_ok_def ex_json_def ex_create_def

lemmas run_defs =
  last_photo_def convert_step_def jpeg_reencode_def upload_image_to_imgbb_def upload_body_def
  analyze_image_openai_def analyze_loop.simps [of _ _ _ _ 0] analyze_loop.simps [of _ _ _ _ 1]
  analyze_loop.simps [of _ _ _ _ 2] attempt_once_def first_choice_text_def time_sleep_def
  strip_def isspace_def py_def

lemma replies_append: "replies (xs @ ys) = replies xs @ replies ys"
  by (induction xs rule: replies.induct) simp_all

text \<open>The uploader makes one request at most, and only with a re-encoded buffer.\<close>

lemma upload_trace:
  "snd (upload_image_to_imgbb env file_data) = [] \<or>
   (\<exists>img output. image_open env file_data = Inr img \<and> jpeg_reencode env img = Inr output \<and>
      snd (upload_image_to_imgbb env file_data) = [Post imgbb_url (upload_payload env output)])"
  by (auto simp: upload_image_to_imgbb_def upload_body_def Let_def split: sum.splits)

lemma upload_no_replies: "replies (snd (upload_image_to_imgbb env file_data)) = []"
  using upload_trace [of env file_data] by auto

text \<open>The analyzer does nothing but call the endpoint and sleep.\<close>

lemma analyze_loop_events:
  "set (snd (analyze_loop env u retries delay a)) \<subseteq> {Create u, Sleep delay}"
proof (induction env u retries delay a rule: analyze_loop.induct)
  case (1 env u retries delay a)
  show ?case
  proof (cases "0 \<le> a \<and> a < retries")
    case False
    then have "analyze_loop env u retries delay a = (Inr None, [])"
      by (subst analyze_loop.simps) (simp only: if_False)
    then show ?thesis by simp
  next
    case True
    show ?thesis
    proof (cases "attempt_once env (nat a) u")
      case (Inr t)
      with True show ?thesis by (simp add: analyze_loop.simps)
    next
      case (Inl e)
      show ?thesis
      proof (cases "a < retries - 1 \<and> time_sleep delay = Inr ()")
        case False
        with True Inl show ?thesis
          by (cases "time_sleep delay")
             (auto simp: analyze_loop.simps split: if_splits)
      next
        case more: True
        obtain r tr where rt: "analyze_loop env u retries delay (a + 1) = (r, tr)"
          by (cases "analyze_loop env u retries delay (a + 1)")
        have "set tr \<subseteq> {Create u, Sleep delay}"
          using "1.IH" [OF True Inl, of "()" ] more rt by simp
        with True Inl more rt show ?thesis
          by (auto simp: analyze_loop.simps)
      qed
    qed
  qed
qed

lemma no_replies: "(\<And>ev. ev \<in> set tr \<Longrightarrow> \<not> (\<exists>t. ev = Reply t)) \<Longrightarrow> replies tr = []"
  by (induction tr rule: replies.induct) auto

lemma analyze_no_replies: "replies (snd (analyze_image_openai env u retries delay)) = []"
  using analyze_loop_events [of env u retries delay 0]
  by (intro no_replies) (auto simp: analyze_image_openai_def)

lemma label_not_failure:
  "result_label @ t \<noteq> msg_failed" "result_label \<noteq> msg_analysis_failed"
  by (simp_all add: result_label_def msg_failed_def msg_analysis_failed_def py_def)

section \<open>The inlined conversion step of the handler\<close>

text \<open>
  C3, as the code has it: the step converts WebP input only. For every decodable
  buffer whose format is WEBP, what goes on to the upload is the RGB-converted JPEG
  encoding, which is also what the Normalizer of section 4.1 produces; every other
  decodable buffer, PNG and JPEG alike, goes on unchanged.
\<close>

theorem convert_step_converts_webp_only:
  assumes "image_open env buf = Inr img"
  shows "(img_format img = Some (py ''WEBP'') \<longrightarrow>
            convert_step env buf = jpeg_reencode env img \<and>
            convert_step env buf = normalizer_spec env buf) \<and>
         (img_format img \<noteq> Some (py ''WEBP'') \<longrightarrow> convert_step env buf = Inr buf)"
  using assms
  by (simp add: convert_step_def normalizer_spec_def canonical_def py_def)

theorem convert_step_converts_webp_only_witness:
  "image_open ex_env ex_webp =
     Inr \<lparr>img_format = Some (py ''WEBP''), img_mode = py ''RGBA'', img_size = (1, 1),
          img_data = [7]\<rparr> \<and>
   convert_step ex_env ex_webp = Inr [0, 0, 7] \<and>
   normalizer_spec ex_env ex_webp = Inr [0, 0, 7] \<and>
   image_open ex_env ex_png =
     Inr \<lparr>img_format = Some (py ''PNG''), img_mode = py ''RGBA'', img_size = (1, 1),
          img_data = [7]\<rparr> \<and>
   convert_step ex_env ex_png = Inr ex_png"
  using convert_step_converts_webp_only [of ex_env ex_webp
      "\<lparr>img_format = Some (py ''WEBP''), img_mode = py ''RGBA'', img_size = (1, 1),
         img_data = [7]\<rparr>"]
    convert_step_converts_webp_only [of ex_env ex_png
      "\<lparr>img_format = Some (py ''PNG''), img_mode = py ''RGBA'', img_size = (1, 1),
         img_data = [7]\<rparr>"]
  by (simp add: convert_step_def normalizer_spec_def canonical_def jpeg_reencode_def ex_defs
      py_def)

text \<open>
  As the specification states C3, every input that is not canonical is converted.
  A PNG is not: the step hands the PNG bytes on as they are, where the Normalizer
  gives a JPEG.
\<close>

theorem convert_step_skips_png:
  "image_open ex_env ex_png =
     Inr \<lparr>img_format = Some (py ''PNG''), img_mode = py ''RGBA'', img_size = (1, 1),
          img_data = [7]\<rparr> \<and>
   \<not> canonical \<lparr>img_format = Some (py ''PNG''), img_mode = py ''RGBA'', img_size = (1, 1),
        img_data = [7]\<rparr> \<and>
   convert_step ex_env ex_png = Inr ex_png \<and>
   normalizer_spec ex_env ex_png = Inr [0, 0, 7] \<and>
   convert_step ex_env ex_png \<noteq> normalizer_spec ex_env ex_png"
  by (simp add: convert_step_def normalizer_spec_def canonical_def jpeg_reencode_def ex_defs
      py_def)

section \<open>What the pipeline submits to the host\<close>

lemma jpeg_reencode_Inr:
  assumes "jpeg_reencode env img = Inr out"
  shows "\<exists>rgb. image_convert env img (py ''RGB'') = Inr rgb \<and>
               image_save env rgb (py ''JPEG'') = Inr out"
  using assms by (auto simp: jpeg_reencode_def split: sum.splits)

lemma handle_photo_body_posts:
  assumes "Post u p \<in> set (snd (handle_photo_body env msg))"
  shows "\<exists>file_data. Post u p \<in> set (snd (upload_image_to_imgbb env file_data))"
proof -
  have an: False
    if "analyze_image_openai env image_url 3 2 = (r, tr)" "Post u p \<in> set tr" for image_url r tr
    using analyze_loop_events [of env image_url 3 2 0] that
    by (auto simp: analyze_image_openai_def)
  have up: "\<exists>file_data. Post u p \<in> set (snd (upload_image_to_imgbb env file_data))"
    if "upload_image_to_imgbb env d = (r, tr)" "Post u p \<in> set tr" for d r tr
    using that by (intro exI [of _ d]) simp
  from assms show ?thesis
    by (auto simp: handle_photo_body_def do_reply_def Let_def
        split: sum.splits prod.splits if_splits dest: an up)
qed

lemma handle_photo_posts:
  assumes "Post u p \<in> set (snd (handle_photo env msg))"
  shows "\<exists>file_data. Post u p \<in> set (snd (upload_image_to_imgbb env file_data))"
  using assms handle_photo_body_posts [of u p env msg]
  by (cases "handle_photo_body env msg")
     (auto simp: handle_photo_def do_reply_def split: sum.splits)

text \<open>
  C6: whatever buffer the chat platform delivers, a valid WebP or PNG in particular,
  the bytes that the pipeline base64-encodes and posts to the host decode as a JPEG
  image in mode RGB. PIL is a parameter; what is used of it is that \<open>convert("RGB")\<close>
  gives an image in mode RGB, and that an RGB image saved as JPEG opens again as a
  JPEG in mode RGB.
\<close>

theorem submitted_buffer_is_rgb_jpeg:
  assumes conv: "\<And>img rgb. image_convert env img (py ''RGB'') = Inr rgb \<Longrightarrow>
                   img_mode rgb = py ''RGB''"
    and save: "\<And>img out. img_mode img = py ''RGB'' \<Longrightarrow>
                 image_save env img (py ''JPEG'') = Inr out \<Longrightarrow>
                 \<exists>j. image_open env out = Inr j \<and> img_format j = Some (py ''JPEG'') \<and>
                     img_mode j = py ''RGB''"
    and post: "Post u p \<in> set (snd (handle_photo env msg))"
  shows "\<exists>out j. p = upload_payload env out \<and> image_open env out = Inr j \<and>
           img_format j = Some (py ''JPEG'') \<and> img_mode j = py ''RGB''"
proof -
  from handle_photo_posts [OF post] obtain file_data
    where "Post u p \<in> set (snd (upload_image_to_imgbb env file_data))" ..
  with upload_trace [of env file_data] obtain img out
    where "jpeg_reencode env img = Inr out" and p: "p = upload_payload env out"
    by auto
  then obtain rgb where "image_convert env img (py ''RGB'') = Inr rgb"
    and s: "image_save env rgb (py ''JPEG'') = Inr out"
    using jpeg_reencode_Inr by blast
  then have "img_mode rgb = py ''RGB''" using conv by blast
  from save [OF this s] p show ?thesis by blast
qed

text \<open>The example codec meets both conditions; a PNG and a WebP are posted as JPEG.\<close>

lemma ex_codec_convert: "ex_convert img (py ''RGB'') = Inr rgb \<Longrightarrow> img_mode rgb = py ''RGB''"
  by (auto simp: ex_convert_def)

lemma ex_codec_save:
  "img_mode img = py ''RGB'' \<Longrightarrow> ex_save img (py ''JPEG'') = Inr out \<Longrightarrow>
   \<exists>j. ex_open out = Inr j \<and> img_format j = Some (py ''JPEG'') \<and> img_mode j = py ''RGB''"
  by (auto simp: ex_save_def ex_open_def)

theorem submitted_buffer_is_rgb_jpeg_witness:
  "Post imgbb_url (upload_payload ex_env [0, 0, 7]) \<in> set (snd (handle_photo ex_env ex_msg)) \<and>
   Post imgbb_url (upload_payload ex_env_webp [0, 0, 7])
     \<in> set (snd (handle_photo ex_env_webp ex_msg)) \<and>
   (\<exists>out j. upload_payload ex_env [0, 0, 7] = upload_payload ex_env out \<and>
      image_open ex_env out = Inr j \<and>
      img_format j = Some (py ''JPEG'') \<and> img_mode j = py ''RGB'') \<and>
   (\<exists>out j. upload_payload ex_env_webp [0, 0, 7] = upload_payload ex_env_webp out \<and>
      image_open ex_env_webp out = Inr j \<and>
      img_format j = Some (py ''JPEG'') \<and> img_mode j = py ''RGB'')"
proof -
  have png: "Post imgbb_url (upload_payload ex_env [0, 0, 7])
      \<in> set (snd (handle_photo ex_env ex_msg))"
    by (simp add: handle_photo_def handle_photo_body_def do_reply_def text_truthy_def
        upload_payload_def ex_defs run_defs ex_url_def Let_def)
  have webp: "Post imgbb_url (upload_payload ex_env_webp [0, 0, 7])
      \<in> set (snd (handle_photo ex_env_webp ex_msg))"
    by (simp add: handle_photo_def handle_photo_body_def do_reply_def text_truthy_def
        upload_payload_def ex_env_webp_def ex_defs run_defs ex_url_def Let_def)
  have c1: "image_convert ex_env img (py ''RGB'') = Inr rgb \<Longrightarrow> img_mode rgb = py ''RGB''"
    for img rgb using ex_codec_convert by (simp add: ex_env_def)
  have s1: "img_mode img = py ''RGB'' \<Longrightarrow> image_save ex_env img (py ''JPEG'') = Inr out \<Longrightarrow>
      \<exists>j. image_open ex_env out = Inr j \<and> img_format j = Some (py ''JPEG'') \<and>
          img_mode j = py ''RGB''" for img out
    using ex_codec_save [of img out] by (simp add: ex_env_def)
  have c2: "image_convert ex_env_webp img (py ''RGB'') = Inr rgb \<Longrightarrow> img_mode rgb = py ''RGB''"
    for img rgb using ex_codec_convert by (simp add: ex_env_webp_def ex_env_def)
  have s2: "img_mode img = py ''RGB'' \<Longrightarrow>
      image_save ex_env_webp img (py ''JPEG'') = Inr out \<Longrightarrow>
      \<exists>j. image_open ex_env_webp out = Inr j \<and> img_format j = Some (py ''JPEG'') \<and>
          img_mode j = py ''RGB''" for img out
    using ex_codec_save [of img out] by (simp add: ex_env_webp_def ex_env_def)
  have r1: "\<exists>out j. upload_payload ex_env [0, 0, 7] = upload_payload ex_env out \<and>
      image_open ex_env out = Inr j \<and>
      img_format j = Some (py ''JPEG'') \<and> img_mode j = py ''RGB''"
    by (rule submitted_buffer_is_rgb_jpeg [of ex_env imgbb_url _ ex_msg])
       (rule c1, assumption, rule s1, assumption, assumption, rule png)
  have r2: "\<exists>out j. upload_payload ex_env_webp [0, 0, 7] = upload_payload ex_env_webp out \<and>
      image_open ex_env_webp out = Inr j \<and>
      img_format j = Some (py ''JPEG'') \<and> img_mode j = py ''RGB''"
    by (rule submitted_buffer_is_rgb_jpeg [of ex_env_webp imgbb_url _ ex_msg])
       (rule c2, assumption, rule s2, assumption, assumption, rule webp)
  from png webp r1 r2 show ?thesis by blast
qed

section \<open>The handler\<close>

text \<open>
  C7, as the code has it: for every photo message whose downloaded bytes make the
  inlined conversion step raise, that is, bytes that \<open>Image.open\<close> cannot identify,
  or bytes identified as WEBP whose conversion to JPEG raises, \<open>handle_photo\<close>
  replies with the format-failure message and stops: the uploader is not called,
  nothing is posted, the analyzer is not called and the model endpoint is not asked.
  (Should that reply itself raise, the generic reply follows it.)
\<close>

theorem format_failure_stops:
  assumes "last_photo msg = Inr p"
    and "get_file env (file_id p) = Inr path"
    and "download_file env path = Inr file_data"
    and "(\<exists>e. image_open env file_data = Inl e) \<or>
         (\<exists>img e. image_open env file_data = Inr img \<and>
            img_format img = Some (py ''WEBP'') \<and> jpeg_reencode env img = Inl e)"
  shows "replies (snd (handle_photo env msg)) =
           msg_format_failed #
             (case reply_to env 0 msg_format_failed of Inr u \<Rightarrow> [] | Inl e' \<Rightarrow> [msg_failed]) \<and>
         uploads (snd (handle_photo env msg)) = [] \<and>
         posts (snd (handle_photo env msg)) = [] \<and>
         analyses (snd (handle_photo env msg)) = [] \<and>
         creates (snd (handle_photo env msg)) = []"
proof -
  from assms(4) obtain e where "convert_step env file_data = Inl e"
    by (auto simp: convert_step_def)
  with assms(1-3) show ?thesis
    by (simp add: handle_photo_def handle_photo_body_def do_reply_def split: sum.splits)
qed

text \<open>A download that is no image, and a WebP whose pixel data is cut short.\<close>

theorem format_failure_stops_witness:
  "last_photo ex_msg = Inr \<lparr>file_id = py ''large''\<rparr> \<and>
   image_open ex_env_garbage [9] = Inl (LibError (py ''cannot identify image file'')) \<and>
   replies (snd (handle_photo ex_env_garbage ex_msg)) = [msg_format_failed] \<and>
   uploads (snd (handle_photo ex_env_garbage ex_msg)) = [] \<and>
   posts (snd (handle_photo ex_env_garbage ex_msg)) = [] \<and>
   analyses (snd (handle_photo ex_env_garbage ex_msg)) = [] \<and>
   creates (snd (handle_photo ex_env_garbage ex_msg)) = [] \<and>
   image_open ex_env_truncated_webp ex_webp =
     Inr \<lparr>img_format = Some (py ''WEBP''), img_mode = py ''RGBA'', img_size = (1, 1),
          img_data = [7]\<rparr> \<and>
   jpeg_reencode ex_env_truncated_webp
     \<lparr>img_format = Some (py ''WEBP''), img_mode = py ''RGBA'', img_size = (1, 1),
        img_data = [7]\<rparr> = Inl ex_truncated \<and>
   replies (snd (handle_photo ex_env_truncated_webp ex_msg)) = [msg_format_failed] \<and>
   uploads (snd (handle_photo ex_env_truncated_webp ex_msg)) = [] \<and>
   posts (snd (handle_photo ex_env_truncated_webp ex_msg)) = [] \<and>
   analyses (snd (handle_photo ex_env_truncated_webp ex_msg)) = [] \<and>
   creates (snd (handle_photo ex_env_truncated_webp ex_msg)) = []"
  using format_failure_stops [of ex_msg "\<lparr>file_id = py ''large''\<rparr>" ex_env_garbage
      "py ''photos/1''" "[9]"]
    format_failure_stops [of ex_msg "\<lparr>file_id = py ''large''\<rparr>" ex_env_truncated_webp
      "py ''photos/1''" ex_webp]
  by (simp add: ex_msg_def last_photo_def ex_env_garbage_def ex_env_truncated_webp_def
      ex_env_truncated_def ex_env_def ex_open_def ex_webp_def jpeg_reencode_def py_def)

text \<open>
  As the specification states C7, no buffer that fails to decode reaches the uploader.
  \<open>Image.open\<close> only identifies the file, and the step loads the pixels of a WebP
  alone: a PNG whose header opens and whose pixel data does not decode is handed to
  the uploader, which fails on it, and the reply is the upload-failure message.
\<close>

theorem undecodable_png_is_uploaded:
  "download_file ex_env_truncated (py ''photos/1'') = Inr ex_png \<and>
   image_open ex_env_truncated ex_png =
     Inr \<lparr>img_format = Some (py ''PNG''), img_mode = py ''RGBA'', img_size = (1, 1),
          img_data = [7]\<rparr> \<and>
   image_convert ex_env_truncated
     \<lparr>img_format = Some (py ''PNG''), img_mode = py ''RGBA'', img_size = (1, 1),
        img_data = [7]\<rparr> (py ''RGB'') = Inl ex_truncated \<and>
   handle_photo ex_env_truncated ex_msg =
     (Inr (), [Get_file (py ''large''), Download_file (py ''photos/1''), Call_upload ex_png,
               Reply msg_upload_failed]) \<and>
   uploads (snd (handle_photo ex_env_truncated ex_msg)) = [ex_png] \<and>
   replies (snd (handle_photo ex_env_truncated ex_msg)) = [msg_upload_failed]"
  by (simp add: handle_photo_def handle_photo_body_def do_reply_def convert_step_def
      upload_image_to_imgbb_def upload_body_def jpeg_reencode_def ex_env_truncated_def
      ex_env_def ex_msg_def last_photo_def ex_open_def ex_png_def py_def)

text \<open>
  After the upload has returned a URL and the analyzer has returned, the reply is
  chosen by the truth value of the analysis result.
\<close>

lemma handle_photo_after_analysis:
  assumes "last_photo msg = Inr p"
    and "get_file env (file_id p) = Inr path"
    and "download_file env path = Inr file_data"
    and "convert_step env file_data = Inr file_data'"
    and "fst (upload_image_to_imgbb env file_data') = Inr image_url"
    and "truthy image_url"
    and "fst (analyze_image_openai env image_url 3 2) = Inr r"
  shows "replies (snd (handle_photo env msg)) =
           (let t = (if text_truthy r then result_label @ fstr r else msg_analysis_failed)
            in t # (case reply_to env 0 t of Inr u \<Rightarrow> [] | Inl e' \<Rightarrow> [msg_failed]))"
proof -
  obtain tr_up where up: "upload_image_to_imgbb env file_data' = (Inr image_url, tr_up)"
    using assms(5) by (cases "upload_image_to_imgbb env file_data'") simp
  obtain tr_an where an: "analyze_image_openai env image_url 3 2 = (Inr r, tr_an)"
    using assms(7) by (cases "analyze_image_openai env image_url 3 2") simp
  have "replies tr_up = []" using upload_no_replies [of env file_data'] up by simp
  moreover have "replies tr_an = []" using analyze_no_replies [of env image_url 3 2] an by simp
  ultimately show ?thesis
    using assms(1-4,6) up an
    by (simp add: handle_photo_def handle_photo_body_def do_reply_def replies_append Let_def
        split: sum.splits)
qed

text \<open>
  C9: for every photo message for which the upload returns a URL and the analysis
  returns a text \<open>t\<close> that is not empty, the reply of \<open>handle_photo\<close> is exactly the
  fixed label followed by \<open>t\<close>. (Should that reply itself raise, the generic reply
  follows it.)
\<close>

theorem success_reply_is_label_and_text:
  assumes "last_photo msg = Inr p"
    and "get_file env (file_id p) = Inr path"
    and "download_file env path = Inr file_data"
    and "convert_step env file_data = Inr file_data'"
    and "fst (upload_image_to_imgbb env file_data') = Inr image_url"
    and "truthy image_url"
    and "fst (analyze_image_openai env image_url 3 2) = Inr (Some t)"
    and "t \<noteq> []"
  shows "replies (snd (handle_photo env msg)) =
           (result_label @ t) #
             (case reply_to env 0 (result_label @ t) of Inr u \<Rightarrow> [] | Inl e' \<Rightarrow> [msg_failed])"
  using handle_photo_after_analysis [OF assms(1-7)] assms(8)
  by (simp add: text_truthy_def fstr_def Let_def)

theorem success_reply_is_label_and_text_witness:
  "last_photo ex_msg = Inr \<lparr>file_id = py ''large''\<rparr> \<and>
   convert_step ex_env ex_png = Inr ex_png \<and>
   fst (upload_image_to_imgbb ex_env ex_png) = Inr (JStr ex_url) \<and>
   truthy (JStr ex_url) \<and>
   fst (analyze_image_openai ex_env (JStr ex_url) 3 2) = Inr (Some (py ''a cat'')) \<and>
   replies (snd (handle_photo ex_env ex_msg)) = [result_label @ py ''a cat'']"
  using success_reply_is_label_and_text [of ex_msg "\<lparr>file_id = py ''large''\<rparr>" ex_env
      "py ''photos/1''" ex_png ex_png "JStr ex_url" "py ''a cat''"]
  by (simp add: ex_defs run_defs ex_url_def)

text \<open>
  C10: when the analyzer returns the empty string, which it does when a call to the
  model succeeds with a text that is empty once stripped, \<open>handle_photo\<close> replies
  with the analysis-failure message; the label with an empty text is never sent.
\<close>

theorem blank_text_is_analysis_failure:
  assumes "last_photo msg = Inr p"
    and "get_file env (file_id p) = Inr path"
    and "download_file env path = Inr file_data"
    and "convert_step env file_data = Inr file_data'"
    and "fst (upload_image_to_imgbb env file_data') = Inr image_url"
    and "truthy image_url"
    and "fst (analyze_image_openai env image_url 3 2) = Inr (Some [])"
  shows "replies (snd (handle_photo env msg)) =
           msg_analysis_failed #
             (case reply_to env 0 msg_analysis_failed of Inr u \<Rightarrow> [] | Inl e' \<Rightarrow> [msg_failed]) \<and>
         result_label @ [] \<notin> set (replies (snd (handle_photo env msg)))"
  using handle_photo_after_analysis [OF assms(1-7)] label_not_failure(1) [of "[]"]
    label_not_failure(2)
  by (simp add: text_truthy_def fstr_def Let_def split: sum.splits)

theorem blank_text_is_analysis_failure_witness:
  "fst (upload_image_to_imgbb ex_env_blank ex_png) = Inr (JStr ex_url) \<and>
   fst (analyze_image_openai ex_env_blank (JStr ex_url) 3 2) = Inr (Some []) \<and>
   replies (snd (handle_photo ex_env_blank ex_msg)) = [msg_analysis_failed]"
  using blank_text_is_analysis_failure [of ex_msg "\<lparr>file_id = py ''large''\<rparr>" ex_env_blank
      "py ''photos/1''" ex_png ex_png "JStr ex_url"]
  by (simp add: ex_env_blank_def ex_defs run_defs ex_url_def)

text \<open>
  C8, as the code has it: every exception that leaves the body of the outer \<open>try\<close>
  is caught by the outer \<open>except\<close> and answered with the generic failure reply; and
  when that reply does not raise, no exception leaves \<open>handle_photo\<close>.
\<close>

theorem outer_except_answers:
  "(\<forall>e tr. handle_photo_body env msg = (Inl e, tr) \<longrightarrow>
      snd (handle_photo env msg) = tr @ [Reply msg_failed]) \<and>
   ((\<forall>k. reply_to env k msg_failed = Inr ()) \<longrightarrow> fst (handle_photo env msg) = Inr ())"
  by (cases "handle_photo_body env msg")
     (auto simp: handle_photo_def do_reply_def split: sum.splits)

theorem outer_except_answers_witness:
  "handle_photo_body ex_env_no_download ex_msg =
     (Inl ex_timeout, [Get_file (py ''large''), Download_file (py ''photos/1'')]) \<and>
   snd (handle_photo ex_env_no_download ex_msg) =
     [Get_file (py ''large''), Download_file (py ''photos/1''), Reply msg_failed] \<and>
   fst (handle_photo ex_env_no_download ex_msg) = Inr ()"
proof -
  have body: "handle_photo_body ex_env_no_download ex_msg =
     (Inl ex_timeout, [Get_file (py ''large''), Download_file (py ''photos/1'')])"
    by (simp add: handle_photo_body_def ex_env_no_download_def ex_env_def ex_msg_def
        last_photo_def)
  have ok: "\<forall>k. reply_to ex_env_no_download k msg_failed = Inr ()"
    by (simp add: ex_env_no_download_def ex_env_def)
  from outer_except_answers [of ex_env_no_download ex_msg] body ok show ?thesis
    by simp
qed

text \<open>
  As the specification states C8, no exception ever leaves the handler. The generic
  reply is made inside the \<open>except\<close> clause, so its own exception does: with the
  chat platform unreachable, \<open>bot.get_file\<close> raises, the reply raises too, and that
  exception reaches the message loop.
\<close>

theorem handler_exception_escapes:
  "handle_photo ex_env_offline ex_msg =
     (Inl ex_timeout, [Get_file (py ''large''), Reply msg_failed])"
  by (simp add: handle_photo_def handle_photo_body_def do_reply_def ex_env_offline_def
      ex_env_def ex_msg_def last_photo_def)

end
